theory Spec2Isabelle
  imports Complex_Main "HOL-Library.AList" "HOL-Library.Sublist"
begin

section \<open>Python values, exceptions and the interpreter's builtins\<close>

text \<open>
  The program is one Flask module, \<^verbatim>\<open>app.py\<close>. Its data are JSON-like Python values:
  request bodies, the dictionaries it builds for transactions and rules, and the bodies
  it hands to \<^verbatim>\<open>jsonify\<close>. A dictionary is an association list in insertion order
  (keys are unique in every dictionary the program builds; \<open>map_of\<close> reads the first
  binding and \<open>AList.update\<close> overwrites in place or appends, as a Python dict does).
\<close>

datatype pyfloat = Finite real | PosInf | NegInf | NaN

datatype pyval =
    PNone
  | PBool bool
  | PInt int
  | PFloat pyfloat
  | PStr string
  | PList "pyval list"
  | PDict "(string \<times> pyval) list"

type_synonym pydict = "(string \<times> pyval) list"

text \<open>
  Exception classes. \<open>is_Exception\<close> is \<^verbatim>\<open>issubclass(c, Exception)\<close>: the clause
  \<^verbatim>\<open>except Exception\<close> lets \<^verbatim>\<open>SystemExit\<close>, \<^verbatim>\<open>KeyboardInterrupt\<close> and the
  other direct subclasses of \<^verbatim>\<open>BaseException\<close> pass. A subclass of \<^verbatim>\<open>ValueError\<close>
  is represented by \<open>ValueError\<close> itself. The string of a \<open>PyExn\<close> is \<^verbatim>\<open>str(e)\<close>.
\<close>

datatype exn_class =
    ValueError
  | TypeError
  | KeyError
  | NameError
  | AttributeError
  | OverflowError
  | SyntaxError
  | OtherException string
  | SystemExit
  | KeyboardInterrupt
  | OtherBaseException string

datatype pyexn = PyExn exn_class string

fun is_Exception :: "exn_class \<Rightarrow> bool" where
  "is_Exception SystemExit = False"
| "is_Exception KeyboardInterrupt = False"
| "is_Exception (OtherBaseException n) = False"
| "is_Exception c = True"

fun exn_class_of :: "pyexn \<Rightarrow> exn_class" where
  "exn_class_of (PyExn c m) = c"

fun exn_str :: "pyexn \<Rightarrow> string" where
  "exn_str (PyExn c m) = m"

text \<open>The truth value Python's \<^verbatim>\<open>not\<close> and \<^verbatim>\<open>if\<close> take of a value.\<close>

fun truthy :: "pyval \<Rightarrow> bool" where
  "truthy PNone = False"
| "truthy (PBool b) = b"
| "truthy (PInt i) = (i \<noteq> 0)"
| "truthy (PFloat f) = (f \<noteq> Finite 0)"
| "truthy (PStr s) = (s \<noteq> [])"
| "truthy (PList xs) = (xs \<noteq> [])"
| "truthy (PDict d) = (d \<noteq> [])"

text \<open>
  \<^verbatim>\<open>repr\<close> of a name made of letters and underscores, such as \<^verbatim>\<open>'amount'\<close>: the text of
  \<^verbatim>\<open>str(KeyError(k))\<close> for the keys the program looks up, all of them literals of that
  shape. (For a string with quotes or escapes \<^verbatim>\<open>repr\<close> is another text; the program has
  no such key.)
\<close>

definition repr_key :: "string \<Rightarrow> string" where
  "repr_key k = CHR 0x27 # k @ [CHR 0x27]"

text \<open>
  \<^verbatim>\<open>v[k]\<close> with a string key: a dictionary answers or raises \<^verbatim>\<open>KeyError\<close>; every other
  JSON value raises \<^verbatim>\<open>TypeError\<close> (its text differs between CPython versions and is
  never read by the program, so it is left empty).
\<close>

fun py_getitem :: "pyval \<Rightarrow> string \<Rightarrow> pyexn + pyval" where
  "py_getitem (PDict d) k =
     (case map_of d k of
        Some v \<Rightarrow> Inr v
      | None \<Rightarrow> Inl (PyExn KeyError (repr_key k)))"
| "py_getitem v k = Inl (PyExn TypeError [])"

text \<open>
  What a rule expression can see and change when \<^verbatim>\<open>eval\<close> runs inside
  \<^verbatim>\<open>check_compliance\<close>: the objects its local variables hold. \<^verbatim>\<open>transaction\<close> is a
  dictionary, \<^verbatim>\<open>rules\<close> and \<^verbatim>\<open>compliance_issues\<close> are lists, and \<^verbatim>\<open>rule\<close> is the
  element of \<^verbatim>\<open>rules\<close> the loop is at.
\<close>

record frame =
  f_transaction :: pydict
  f_rules :: "pyval list"
  f_compliance_issues :: "pyval list"
  f_rule :: pyval

datatype eval_result = Returned pyval | Raised pyexn

text \<open>
  The builtins and services the module calls but does not define are parameters of the
  model, so that every theorem below holds whatever they do:
  \<^item> \<open>float_of_str\<close>: \<^verbatim>\<open>float(s)\<close> on a string, the number or the text of the
    \<^verbatim>\<open>ValueError\<close> it raises; \<open>float_of_int\<close>: \<^verbatim>\<open>float(i)\<close> on an integer (\<open>None\<close> is
    \<^verbatim>\<open>OverflowError\<close>);
  \<^item> \<open>str_format\<close>: \<^verbatim>\<open>s.format(transaction=t)\<close>;
  \<^item> \<open>py_eval\<close>: \<^verbatim>\<open>eval(src)\<close> in the frame of \<^verbatim>\<open>check_compliance\<close>. Rule text is
    arbitrary Python with the local variables in scope: it returns a value or raises
    (also a \<^verbatim>\<open>BaseException\<close> such as \<^verbatim>\<open>SystemExit\<close>), and it leaves the objects of the
    frame as it pleases: the transaction, the list \<^verbatim>\<open>rules\<close> the loop iterates, the
    list \<^verbatim>\<open>compliance_issues\<close> and the dictionary \<^verbatim>\<open>rule\<close>. The result frame is
    not constrained, so every aliasing between these objects is covered. The program only
    takes the truth value of the result, so a result of a type that \<open>pyval\<close> lacks stands
    as the \<open>PBool\<close> of its truth value. Expressions that rebind the module's globals or
    never return themselves are outside the model;
  \<^item> \<open>py_str\<close>: \<^verbatim>\<open>str(v)\<close>, as an f-string applies it;
  \<^item> \<open>uuid4\<close>: the n-th identifier \<^verbatim>\<open>str(uuid.uuid4())\<close> yields;
  \<^item> \<open>perform_query_chat\<close>: the chat completion for a prompt, read as
    \<^verbatim>\<open>response.choices[0].message.content\<close>, or the exception the call raises.
\<close>

record runtime =
  float_of_str :: "string \<Rightarrow> string + pyfloat"
  float_of_int :: "int \<Rightarrow> pyfloat option"
  str_format :: "string \<Rightarrow> pydict \<Rightarrow> pyexn + string"
  py_eval :: "string \<Rightarrow> frame \<Rightarrow> eval_result \<times> frame"
  py_str :: "pyval \<Rightarrow> string"
  uuid4 :: "nat \<Rightarrow> string"
  perform_query_chat :: "string \<Rightarrow> pyexn + pyval"

text \<open>\<^verbatim>\<open>float(v)\<close> by the type of its argument.\<close>

fun py_float :: "runtime \<Rightarrow> pyval \<Rightarrow> pyexn + pyfloat" where
  "py_float rt (PFloat f) = Inr f"
| "py_float rt (PInt i) =
     (case float_of_int rt i of
        Some f \<Rightarrow> Inr f
      | None \<Rightarrow> Inl (PyExn OverflowError ''int too large to convert to float''))"
| "py_float rt (PBool b) = Inr (Finite (if b then 1 else 0))"
| "py_float rt (PStr s) =
     (case float_of_str rt s of
        Inr f \<Rightarrow> Inr f
      | Inl m \<Rightarrow> Inl (PyExn ValueError m))"
| "py_float rt v = Inl (PyExn TypeError [])"

text \<open>\<^verbatim>\<open>type(v).__name__\<close>, and the \<^verbatim>\<open>AttributeError\<close> of \<^verbatim>\<open>v.format\<close> on a value that is not a string.\<close>

fun py_type_name :: "pyval \<Rightarrow> string" where
  "py_type_name PNone = ''NoneType''"
| "py_type_name (PBool b) = ''bool''"
| "py_type_name (PInt i) = ''int''"
| "py_type_name (PFloat f) = ''float''"
| "py_type_name (PStr s) = ''str''"
| "py_type_name (PList xs) = ''list''"
| "py_type_name (PDict d) = ''dict''"

definition no_format_attribute :: "pyval \<Rightarrow> pyexn" where
  "no_format_attribute v =
     PyExn AttributeError
       (repr_key (py_type_name v) @ '' object has no attribute '' @ repr_key ''format'')"

section \<open>The Cosmos DB containers, the log and the application state\<close>

text \<open>
  A container keeps its items in insertion order, keyed by \<^verbatim>\<open>id\<close> (the partition key).
  \<open>outage\<close> is the exception its next call raises, if the service fails.
\<close>

record container =
  items :: "pydict list"
  outage :: "pyexn option"

fun upsert_by_id :: "string \<Rightarrow> pydict \<Rightarrow> pydict list \<Rightarrow> pydict list" where
  "upsert_by_id i item [] = [item]"
| "upsert_by_id i item (x # xs) =
     (if map_of x ''id'' = Some (PStr i) then item # xs else x # upsert_by_id i item xs)"

definition read_all_items :: "container \<Rightarrow> pyexn + pydict list" where
  "read_all_items c = (case outage c of Some e \<Rightarrow> Inl e | None \<Rightarrow> Inr (items c))"

definition upsert_item :: "container \<Rightarrow> pydict \<Rightarrow> pyexn + container" where
  "upsert_item c item =
     (case outage c of
        Some e \<Rightarrow> Inl e
      | None \<Rightarrow>
          (case map_of item ''id'' of
             Some (PStr i) \<Rightarrow> Inr (c\<lparr>items := upsert_by_id i item (items c)\<rparr>)
           | _ \<Rightarrow> Inl (PyExn (OtherException ''CosmosHttpResponseError'') [])))"

text \<open>The calls to \<^verbatim>\<open>logging\<close>, one constructor per message, with the values formatted in.\<close>

datatype log_entry =
    Info_checking_rule pyval
  | Info_rule_violation pyval
  | Error_evaluating_rule pyval pyexn
  | Error_converting_amount pyexn
  | Error_submitting_data pyexn
  | Error_updating_compliance pyexn

record app_state =
  transaction_container :: container
  rule_container :: container
  log :: "log_entry list"
  uuid_count :: nat

text \<open>A Flask view returns a JSON body with a status, or lets an exception escape.\<close>

datatype response = Response pyval nat

section \<open>check_compliance\<close>

text \<open>
  Line 117, \<^verbatim>\<open>eval(rule['rule_check'].format(transaction=transaction))\<close>: a missing key, a
  \<^verbatim>\<open>rule_check\<close> that is not a string (no \<^verbatim>\<open>format\<close> attribute), a failing
  \<^verbatim>\<open>format\<close> and a failing \<^verbatim>\<open>eval\<close> all raise inside the \<^verbatim>\<open>try\<close>. Only \<^verbatim>\<open>eval\<close>
  changes the frame.
\<close>

definition eval_rule_check :: "runtime \<Rightarrow> frame \<Rightarrow> eval_result \<times> frame" where
  "eval_rule_check rt fr =
     (case py_getitem (f_rule fr) ''rule_check'' of
        Inl e \<Rightarrow> (Raised e, fr)
      | Inr c \<Rightarrow>
          (case c of
             PStr s \<Rightarrow>
               (case str_format rt s (f_transaction fr) of
                  Inl e \<Rightarrow> (Raised e, fr)
                | Inr src \<Rightarrow> py_eval rt src fr)
           | _ \<Rightarrow> (Raised (no_format_attribute c), fr)))"

text \<open>
  The state of the loop of lines 114 to 121: the objects that \<^verbatim>\<open>transaction\<close>,
  \<^verbatim>\<open>rules\<close> and \<^verbatim>\<open>compliance_issues\<close> hold, and the log.
\<close>

record loop_state =
  ls_transaction :: pydict
  ls_rules :: "pyval list"
  ls_compliance_issues :: "pyval list"
  ls_log :: "log_entry list"

definition frame_of :: "loop_state \<Rightarrow> pyval \<Rightarrow> frame" where
  "frame_of s rule =
     \<lparr>f_transaction = ls_transaction s, f_rules = ls_rules s,
      f_compliance_issues = ls_compliance_issues s, f_rule = rule\<rparr>"

definition after_eval :: "loop_state \<Rightarrow> frame \<Rightarrow> loop_state" where
  "after_eval s fr =
     s\<lparr>ls_transaction := f_transaction fr, ls_rules := f_rules fr,
       ls_compliance_issues := f_compliance_issues fr\<rparr>"

text \<open>
  Lines 120 and 121, the handler: its f-string reads \<^verbatim>\<open>rule['rule_description']\<close> again,
  and what that raises escapes the loop.
\<close>

definition error_handler :: "pyexn \<Rightarrow> pyval \<Rightarrow> loop_state \<Rightarrow> pyexn option \<times> loop_state" where
  "error_handler e rule s =
     (case py_getitem rule ''rule_description'' of
        Inl e' \<Rightarrow> (Some e', s)
      | Inr d \<Rightarrow> (None, s\<lparr>ls_log := ls_log s @ [Error_evaluating_rule d e]\<rparr>))"

text \<open>
  Lines 118 and 119, inside the \<^verbatim>\<open>try\<close>: the description is read again after the
  evaluation, logged and appended; a failing read goes to the handler.
\<close>

definition record_violation :: "pyval \<Rightarrow> loop_state \<Rightarrow> pyexn option \<times> loop_state" where
  "record_violation rule s =
     (case py_getitem rule ''rule_description'' of
        Inl e \<Rightarrow> error_handler e rule s
      | Inr d \<Rightarrow>
          (None, s\<lparr>ls_compliance_issues := ls_compliance_issues s @ [d],
                   ls_log := ls_log s @ [Info_rule_violation d]\<rparr>))"

text \<open>
  The body of the loop for the element \<open>rule\<close> of the list. It returns the exception
  that escapes it, if any, with the state reached. The f-string of line 115 reads
  \<^verbatim>\<open>rule['rule_description']\<close> outside the \<^verbatim>\<open>try\<close>; \<^verbatim>\<open>except Exception\<close> catches what
  lines 117 to 119 raise unless it is a \<^verbatim>\<open>BaseException\<close> only.
\<close>

definition check_rule :: "runtime \<Rightarrow> pyval \<Rightarrow> loop_state \<Rightarrow> pyexn option \<times> loop_state" where
  "check_rule rt rule s =
     (case py_getitem rule ''rule_description'' of
        Inl e \<Rightarrow> (Some e, s)
      | Inr d \<Rightarrow>
          (case eval_rule_check rt (frame_of s rule) of
             (out, fr) \<Rightarrow>
               (let s' = after_eval (s\<lparr>ls_log := ls_log s @ [Info_checking_rule d]\<rparr>) fr in
                case out of
                  Returned v \<Rightarrow>
                    if \<not> truthy v then record_violation (f_rule fr) s' else (None, s')
                | Raised e \<Rightarrow>
                    if is_Exception (exn_class_of e) then error_handler e (f_rule fr) s'
                    else (Some e, s'))))"

text \<open>
  \<^verbatim>\<open>for rule in rules\<close>, line 114: the iterator keeps an index into the list object and
  stops when the index reaches the length the list has at that moment. A rule text that
  keeps extending \<^verbatim>\<open>rules\<close> keeps the loop running: not returning is the value \<open>None\<close>.
\<close>

partial_function (option) check_rules ::
  "runtime \<Rightarrow> nat \<Rightarrow> loop_state \<Rightarrow> (pyexn option \<times> loop_state) option" where
  "check_rules rt i s =
     (if i < length (ls_rules s)
      then (let r = check_rule rt (ls_rules s ! i) s in
            if fst r = None then check_rules rt (Suc i) (snd r) else Some r)
      else Some (None, s))"

text \<open>
  \<^verbatim>\<open>check_compliance(transaction)\<close>, lines 103 to 123, with the rule container and the
  log passed in. When it returns or raises, the result holds the exception that escapes
  (if any), the transaction as it leaves it, the list it returns, and the log. Line 106
  stores \<^verbatim>\<open>float(transaction['amount'])\<close> back into the transaction.
\<close>

definition check_compliance ::
  "runtime \<Rightarrow> container \<Rightarrow> pydict \<Rightarrow> log_entry list \<Rightarrow>
     (pyexn option \<times> pydict \<times> pyval list \<times> log_entry list) option" where
  "check_compliance rt rule_store transaction lg =
     (case py_getitem (PDict transaction) ''amount'' of
        Inl e \<Rightarrow> Some (Some e, (transaction, [], lg))
      | Inr a \<Rightarrow>
          (case py_float rt a of
             Inl e \<Rightarrow>
               if exn_class_of e = ValueError
               then Some (None, (transaction, [PStr ''Invalid transaction amount format''],
                                 lg @ [Error_converting_amount e]))
               else Some (Some e, (transaction, [], lg))
           | Inr f \<Rightarrow>
               (case read_all_items rule_store of
                  Inl e \<Rightarrow> Some (Some e, (AList.update ''amount'' (PFloat f) transaction, [], lg))
                | Inr rules \<Rightarrow>
                    map_option
                      (\<lambda>(ex, s). (ex, (ls_transaction s, ls_compliance_issues s, ls_log s)))
                      (check_rules rt 0
                         \<lparr>ls_transaction = AList.update ''amount'' (PFloat f) transaction,
                          ls_rules = map PDict rules, ls_compliance_issues = [],
                          ls_log = lg\<rparr>))))"

section \<open>The views\<close>

subsection \<open>audit_transaction\<close>

text \<open>
  The dictionary literal of lines 77 to 83, entry by entry: the identifier first, then
  \<^verbatim>\<open>data['date']\<close>, \<^verbatim>\<open>data['description']\<close> and \<^verbatim>\<open>float(data['amount'])\<close>.
\<close>

definition new_transaction :: "runtime \<Rightarrow> string \<Rightarrow> pyval \<Rightarrow> pyexn + pydict" where
  "new_transaction rt tid data =
     (case py_getitem data ''date'' of
        Inl e \<Rightarrow> Inl e
      | Inr date \<Rightarrow>
          (case py_getitem data ''description'' of
             Inl e \<Rightarrow> Inl e
           | Inr description \<Rightarrow>
               (case py_getitem data ''amount'' of
                  Inl e \<Rightarrow> Inl e
                | Inr a \<Rightarrow>
                    (case py_float rt a of
                       Inl e \<Rightarrow> Inl e
                     | Inr amount \<Rightarrow>
                         Inr [(''id'', PStr tid), (''date'', date), (''description'', description),
                              (''amount'', PFloat amount), (''is_compliant'', PBool True)]))))"

text \<open>Lines 89 and 90: the verdict and the issues are written together.\<close>

definition record_verdict :: "pydict \<Rightarrow> pyval list \<Rightarrow> pydict" where
  "record_verdict transaction compliance_issues =
     AList.update ''compliance_issues'' (PList compliance_issues)
       (AList.update ''is_compliant'' (PBool (length compliance_issues = 0)) transaction)"

text \<open>The body of the 201 response, lines 94 to 98.\<close>

definition created_body :: "pydict \<Rightarrow> pyval list \<Rightarrow> pyexn + pyval" where
  "created_body transaction compliance_issues =
     (case py_getitem (PDict transaction) ''id'' of
        Inl e \<Rightarrow> Inl e
      | Inr tid \<Rightarrow>
          (case py_getitem (PDict transaction) ''is_compliant'' of
             Inl e \<Rightarrow> Inl e
           | Inr c \<Rightarrow>
               Inr (PDict [(''transaction_id'', tid),
                           (''compliance_issues'', PList compliance_issues),
                           (''is_compliant'', c)])))"

text \<open>The \<^verbatim>\<open>except Exception\<close> handlers that answer 500 with \<^verbatim>\<open>str(e)\<close>.\<close>

definition error_response :: "pyexn \<Rightarrow> response" where
  "error_response e = Response (PDict [(''error'', PStr (exn_str e))]) 500"

text \<open>Lines 92 to 101: the store write and the response, under \<^verbatim>\<open>try\<close>.\<close>

definition submit :: "app_state \<Rightarrow> pydict \<Rightarrow> pyval list \<Rightarrow> (pyexn + response) \<times> app_state" where
  "submit st transaction compliance_issues =
     (case upsert_item (transaction_container st) transaction of
        Inl e \<Rightarrow>
          if is_Exception (exn_class_of e)
          then (Inr (error_response e), st\<lparr>log := log st @ [Error_submitting_data e]\<rparr>)
          else (Inl e, st)
      | Inr c \<Rightarrow>
          (case created_body transaction compliance_issues of
             Inl e \<Rightarrow>
               (Inr (error_response e),
                st\<lparr>transaction_container := c, log := log st @ [Error_submitting_data e]\<rparr>)
           | Inr body \<Rightarrow> (Inr (Response body 201), st\<lparr>transaction_container := c\<rparr>)))"

text \<open>
  The view, lines 74 to 101. \<^verbatim>\<open>except ValueError\<close> answers 400; every other exception of
  the dictionary literal, and every exception of \<^verbatim>\<open>check_compliance\<close>, escapes. The view
  returns when \<^verbatim>\<open>check_compliance\<close> does.
\<close>

definition audit_transaction ::
  "runtime \<Rightarrow> app_state \<Rightarrow> pyval \<Rightarrow> ((pyexn + response) \<times> app_state) option" where
  "audit_transaction rt st0 data =
     (let st = st0\<lparr>uuid_count := Suc (uuid_count st0)\<rparr> in
      case new_transaction rt (uuid4 rt (uuid_count st0)) data of
        Inl e \<Rightarrow>
          if exn_class_of e = ValueError
          then Some (Inr (Response (PDict [(''error'', PStr ''Invalid amount format'')]) 400),
                     st\<lparr>log := log st @ [Error_converting_amount e]\<rparr>)
          else Some (Inl e, st)
      | Inr transaction \<Rightarrow>
          (case check_compliance rt (rule_container st) transaction (log st) of
             None \<Rightarrow> None
           | Some (Some e, (tx, compliance_issues, lg)) \<Rightarrow> Some (Inl e, st\<lparr>log := lg\<rparr>)
           | Some (None, (tx, compliance_issues, lg)) \<Rightarrow>
               Some (submit (st\<lparr>log := lg\<rparr>) (record_verdict tx compliance_issues)
                       compliance_issues)))"

subsection \<open>update_compliance\<close>

text \<open>
  Lines 162 to 175. The rule is built from the payload as it is and written to the rule
  container; nothing reads \<^verbatim>\<open>rule_check\<close> before it is stored.
\<close>

definition update_compliance :: "runtime \<Rightarrow> app_state \<Rightarrow> pyval \<Rightarrow> (pyexn + response) \<times> app_state" where
  "update_compliance rt st0 data =
     (let rid = uuid4 rt (uuid_count st0);
          st = st0\<lparr>uuid_count := Suc (uuid_count st0)\<rparr> in
      case py_getitem data ''rule_description'' of
        Inl e \<Rightarrow> (Inl e, st)
      | Inr rule_description \<Rightarrow>
          (case py_getitem data ''rule_check'' of
             Inl e \<Rightarrow> (Inl e, st)
           | Inr rule_check \<Rightarrow>
               (case upsert_item (rule_container st)
                       [(''id'', PStr rid), (''rule_description'', rule_description),
                        (''rule_check'', rule_check)] of
                  Inr c \<Rightarrow>
                    (Inr (Response (PDict [(''status'', PStr ''success''), (''rule_id'', PStr rid)]) 201),
                     st\<lparr>rule_container := c\<rparr>)
                | Inl e \<Rightarrow>
                    if is_Exception (exn_class_of e)
                    then (Inr (error_response e), st\<lparr>log := log st @ [Error_updating_compliance e]\<rparr>)
                    else (Inl e, st))))"

subsection \<open>generate_report\<close>

text \<open>\<^verbatim>\<open>[t for t in transactions if not t['is_compliant']]\<close>\<close>

fun non_compliant_transactions :: "pydict list \<Rightarrow> pyexn + pydict list" where
  "non_compliant_transactions [] = Inr []"
| "non_compliant_transactions (t # ts) =
     (case py_getitem (PDict t) ''is_compliant'' of
        Inl e \<Rightarrow> Inl e
      | Inr c \<Rightarrow>
          (case non_compliant_transactions ts of
             Inl e \<Rightarrow> Inl e
           | Inr r \<Rightarrow> Inr (if \<not> truthy c then t # r else r)))"

text \<open>The f-string of line 135 for one transaction.\<close>

definition detail_line :: "runtime \<Rightarrow> pydict \<Rightarrow> pyexn + string" where
  "detail_line rt t =
     (case py_getitem (PDict t) ''id'' of
        Inl e \<Rightarrow> Inl e
      | Inr i \<Rightarrow>
     (case py_getitem (PDict t) ''date'' of
        Inl e \<Rightarrow> Inl e
      | Inr d \<Rightarrow>
     (case py_getitem (PDict t) ''description'' of
        Inl e \<Rightarrow> Inl e
      | Inr ds \<Rightarrow>
     (case py_getitem (PDict t) ''amount'' of
        Inl e \<Rightarrow> Inl e
      | Inr a \<Rightarrow>
     (case py_getitem (PDict t) ''compliance_issues'' of
        Inl e \<Rightarrow> Inl e
      | Inr ci \<Rightarrow>
          Inr (''Transaction ID: '' @ py_str rt i @ '', Date: '' @ py_str rt d
               @ '', Description: '' @ py_str rt ds @ '', Amount: '' @ py_str rt a
               @ '', Issues: '' @ py_str rt ci))))))"

fun detailed_transactions :: "runtime \<Rightarrow> pydict list \<Rightarrow> pyexn + string list" where
  "detailed_transactions rt [] = Inr []"
| "detailed_transactions rt (t # ts) =
     (case detail_line rt t of
        Inl e \<Rightarrow> Inl e
      | Inr l \<Rightarrow>
          (case detailed_transactions rt ts of
             Inl e \<Rightarrow> Inl e
           | Inr ls \<Rightarrow> Inr (l # ls)))"

text \<open>\<^verbatim>\<open>sep.join(xs)\<close>\<close>

fun join :: "string \<Rightarrow> string list \<Rightarrow> string" where
  "join sep [] = []"
| "join sep [x] = x"
| "join sep (x # y # ys) = x @ sep @ join sep (y # ys)"

definition nl :: string where
  "nl = [CHR 0x0A]"

definition detailed_prompt :: "string list \<Rightarrow> string" where
  "detailed_prompt ls =
     ''Generate an audit report for the following non-compliant transactions:'' @ nl
     @ join nl ls
     @ nl @ ''Objective: Streamline audit and compliance.'' @ nl
     @ ''Challenge: Automate transaction auditing, detect non-compliance, generate reports with minimal human intervention, and update compliance requirements.'' @ nl
     @ ''Structure:'' @ nl
     @ ''1. Introduction: Overview of the audit objective and challenges.'' @ nl
     @ ''2. Summary: Summary of non-compliant transactions.'' @ nl
     @ ''3. Details: For each non-compliant transaction, provide:'' @ nl
     @ ''   - Transaction ID'' @ nl
     @ ''   - Transaction Details'' @ nl
     @ ''   - Issues'' @ nl"

text \<open>Line 131, the answer when no transaction is non-compliant.\<close>

definition no_violations :: response where
  "no_violations = Response (PDict [(''report'', PStr ''No non-compliant transactions found.'')]) 200"

text \<open>Lines 126 to 159.\<close>

definition generate_report :: "runtime \<Rightarrow> app_state \<Rightarrow> (pyexn + response) \<times> app_state" where
  "generate_report rt st =
     (case read_all_items (transaction_container st) of
        Inl e \<Rightarrow> (Inl e, st)
      | Inr transactions \<Rightarrow>
          (case non_compliant_transactions transactions of
             Inl e \<Rightarrow> (Inl e, st)
           | Inr bad \<Rightarrow>
               if bad = [] then (Inr no_violations, st)
               else
                 (case detailed_transactions rt bad of
                    Inl e \<Rightarrow> (Inl e, st)
                  | Inr ls \<Rightarrow>
                      (case perform_query_chat rt (detailed_prompt ls) of
                         Inl e \<Rightarrow> (Inl e, st)
                       | Inr assistant_message \<Rightarrow>
                           (Inr (Response (PDict [(''report'', assistant_message)]) 200), st)))))"

section \<open>Builtins for the worked examples\<close>

text \<open>
  The closed examples below run the model with concrete builtins. Each is a table of what
  CPython answers on the few arguments the examples use; the last row of a table only
  makes the function total and says nothing about CPython on other arguments.
\<close>

definition sample_float_of_str :: "string \<Rightarrow> string + pyfloat" where
  "sample_float_of_str s =
     (if s = ''1500.0'' then Inr (Finite 1500)
      else if s = ''500.0'' then Inr (Finite 500)
      else if s = ''abc'' then Inl (''could not convert string to float: '' @ repr_key ''abc'')
      else Inl [])"

text \<open>Integers up to \<open>2 ^ 53\<close> in magnitude convert exactly.\<close>

definition sample_float_of_int :: "int \<Rightarrow> pyfloat option" where
  "sample_float_of_int i = (if \<bar>i\<bar> \<le> 2 ^ 53 then Some (Finite (real_of_int i)) else None)"

text \<open>A text without braces has no replacement field: \<^verbatim>\<open>format\<close> returns it as it is.\<close>

definition sample_format :: "string \<Rightarrow> pydict \<Rightarrow> pyexn + string" where
  "sample_format s t =
     (if CHR ''{'' \<notin> set s \<and> CHR ''}'' \<notin> set s then Inr s
      else Inl (PyExn ValueError []))"

text \<open>The \<^verbatim>\<open>NameError\<close> of the undefined name \<^verbatim>\<open>foo\<close>.\<close>

definition foo_undefined :: pyexn where
  "foo_undefined = PyExn NameError ''name 'foo' is not defined''"

text \<open>\<^verbatim>\<open>transaction['amount'] > 1000\<close> by the type of the amount.\<close>

definition amount_exceeds_1000 :: "pydict \<Rightarrow> eval_result" where
  "amount_exceeds_1000 t =
     (case map_of t ''amount'' of
        Some (PFloat (Finite x)) \<Rightarrow> Returned (PBool (x > 1000))
      | Some (PFloat PosInf) \<Rightarrow> Returned (PBool True)
      | Some (PFloat _) \<Rightarrow> Returned (PBool False)
      | Some (PInt i) \<Rightarrow> Returned (PBool (i > 1000))
      | Some (PBool b) \<Rightarrow> Returned (PBool False)
      | Some _ \<Rightarrow> Raised (PyExn TypeError [])
      | None \<Rightarrow> Raised (PyExn KeyError (repr_key ''amount'')))"

text \<open>
  \<^verbatim>\<open>eval\<close> on eight expressions. An undefined name raises \<^verbatim>\<open>NameError\<close>;
  \<^verbatim>\<open>dict.update\<close>, \<^verbatim>\<open>list.append\<close> and \<^verbatim>\<open>list.clear\<close> change their object and
  return \<^verbatim>\<open>None\<close>, so that \<^verbatim>\<open>or\<close> goes on to its right operand; \<^verbatim>\<open>exit(3)\<close> raises
  \<^verbatim>\<open>SystemExit\<close>.
\<close>

definition sample_eval :: "string \<Rightarrow> frame \<Rightarrow> eval_result \<times> frame" where
  "sample_eval src fr =
     (if src = ''foo > 10'' then (Raised foo_undefined, fr)
      else if src = ''transaction['amount'] > 1000''
      then (amount_exceeds_1000 (f_transaction fr), fr)
      else if src = ''transaction.update(amount=0.0)''
      then (Returned PNone,
            fr\<lparr>f_transaction := AList.update ''amount'' (PFloat (Finite 0)) (f_transaction fr)\<rparr>)
      else if src = ''compliance_issues.append('forged') or True''
      then (Returned (PBool True),
            fr\<lparr>f_compliance_issues := f_compliance_issues fr @ [PStr ''forged'']\<rparr>)
      else if src = ''compliance_issues.append('forged') or foo''
      then (Raised foo_undefined,
            fr\<lparr>f_compliance_issues := f_compliance_issues fr @ [PStr ''forged'']\<rparr>)
      else if src = ''compliance_issues.clear() or True''
      then (Returned (PBool True), fr\<lparr>f_compliance_issues := []\<rparr>)
      else if src = ''rules.clear() or foo''
      then (Raised foo_undefined, fr\<lparr>f_rules := []\<rparr>)
      else if src = ''exit(3)'' then (Raised (PyExn SystemExit ''3''), fr)
      else (Raised (PyExn SyntaxError ''invalid syntax''), fr))"

definition sample_str :: "pyval \<Rightarrow> string" where
  "sample_str v =
     (case v of
        PStr s \<Rightarrow> s
      | PNone \<Rightarrow> ''None''
      | PBool b \<Rightarrow> (if b then ''True'' else ''False'')
      | _ \<Rightarrow> [])"

definition sample_uuid4 :: "nat \<Rightarrow> string" where
  "sample_uuid4 n = ''uuid-'' @ replicate n (CHR ''i'')"

text \<open>A text-generation service that answers every prompt with the same sentence.\<close>

definition sample_chat :: "string \<Rightarrow> pyexn + pyval" where
  "sample_chat prompt = Inr (PStr ''No non-compliant transactions found.'')"

definition sample_rt :: runtime where
  "sample_rt =
     \<lparr>float_of_str = sample_float_of_str, float_of_int = sample_float_of_int,
      str_format = sample_format, py_eval = sample_eval, py_str = sample_str,
      uuid4 = sample_uuid4, perform_query_chat = sample_chat\<rparr>"

definition empty_container :: container where
  "empty_container = \<lparr>items = [], outage = None\<rparr>"

definition initial_state :: app_state where
  "initial_state =
     \<lparr>transaction_container = empty_container, rule_container = empty_container,
      log = [], uuid_count = 0\<rparr>"

text \<open>A request body for \<^verbatim>\<open>/audit\<close> with the given amount.\<close>

definition payload :: "pyval \<Rightarrow> pyval" where
  "payload a =
     PDict [(''date'', PStr ''2024-01-01''), (''description'', PStr ''Office chairs''),
            (''amount'', a)]"

text \<open>A request body for \<^verbatim>\<open>/update_compliance\<close>.\<close>

definition rule_payload :: "string \<Rightarrow> string \<Rightarrow> pyval" where
  "rule_payload description check =
     PDict [(''rule_description'', PStr description), (''rule_check'', PStr check)]"

text \<open>A rule as \<^verbatim>\<open>update_compliance\<close> stores it.\<close>

definition stored_rule :: "string \<Rightarrow> string \<Rightarrow> string \<Rightarrow> pydict" where
  "stored_rule rid description check =
     [(''id'', PStr rid), (''rule_description'', PStr description), (''rule_check'', PStr check)]"

text \<open>Example rules, states and transactions.\<close>

definition large_amount_rule :: "string \<Rightarrow> pydict" where
  "large_amount_rule rid =
     stored_rule rid ''Amount must exceed 1000'' ''transaction['amount'] > 1000''"

definition unknown_field_rule :: pydict where
  "unknown_field_rule = stored_rule ''r-2'' ''Unknown field'' ''foo > 10''"

definition overwrite_rule :: pydict where
  "overwrite_rule = stored_rule ''r-3'' ''Overwrites amount'' ''transaction.update(amount=0.0)''"

definition forge_true_rule :: pydict where
  "forge_true_rule =
     stored_rule ''r-5'' ''Adds an issue'' ''compliance_issues.append('forged') or True''"

definition forge_raise_rule :: pydict where
  "forge_raise_rule =
     stored_rule ''r-6'' ''Adds an issue and fails'' ''compliance_issues.append('forged') or foo''"

definition clear_issues_rule :: pydict where
  "clear_issues_rule =
     stored_rule ''r-7'' ''Clears the issues'' ''compliance_issues.clear() or True''"

definition clear_rules_rule :: pydict where
  "clear_rules_rule = stored_rule ''r-8'' ''Clears the rules'' ''rules.clear() or foo''"

definition exit_rule :: pydict where
  "exit_rule = stored_rule ''r-9'' ''Exits'' ''exit(3)''"

definition rules_state :: "pydict list \<Rightarrow> app_state" where
  "rules_state rules = initial_state\<lparr>rule_container := \<lparr>items = rules, outage = None\<rparr>\<rparr>"

text \<open>The transaction \<^verbatim>\<open>audit_transaction\<close> builds from \<open>payload\<close> before the rules run.\<close>

definition fresh :: "pyfloat \<Rightarrow> pydict" where
  "fresh a =
     [(''id'', PStr ''uuid-''), (''date'', PStr ''2024-01-01''),
      (''description'', PStr ''Office chairs''), (''amount'', PFloat a),
      (''is_compliant'', PBool True)]"

text \<open>The state of the loop when it starts on \<open>fresh a\<close> with the given rules.\<close>

definition loop_start :: "pyfloat \<Rightarrow> pydict list \<Rightarrow> loop_state" where
  "loop_start a rules =
     \<lparr>ls_transaction = fresh a, ls_rules = map PDict rules, ls_compliance_issues = [],
      ls_log = []\<rparr>"

text \<open>An audited transaction as it is stored.\<close>

definition audited :: "pyfloat \<Rightarrow> pyval list \<Rightarrow> pydict" where
  "audited a issues =
     [(''id'', PStr ''uuid-''), (''date'', PStr ''2024-01-01''),
      (''description'', PStr ''Office chairs''), (''amount'', PFloat a),
      (''is_compliant'', PBool (issues = [])), (''compliance_issues'', PList issues)]"

text \<open>The body of the 201 answer for the first audit of a state.\<close>

definition created :: "pyval list \<Rightarrow> response" where
  "created issues =
     Response (PDict [(''transaction_id'', PStr ''uuid-''), (''compliance_issues'', PList issues),
                      (''is_compliant'', PBool (issues = []))]) 201"

definition flagged_state :: app_state where
  "flagged_state =
     initial_state\<lparr>transaction_container :=
       \<lparr>items = [audited (Finite 500) [PStr ''Amount must exceed 1000'']], outage = None\<rparr>\<rparr>"

section \<open>The vocabulary of the claims\<close>




text \<open>
  Conditions on what a rule's expression does to the objects of the frame: it leaves the
  list \<^verbatim>\<open>rules\<close> as it was; it leaves the transaction as it was; it leaves
  \<^verbatim>\<open>rules\<close>, \<^verbatim>\<open>compliance_issues\<close> and the rule itself as they were.
\<close>

definition keeps_rules :: "runtime \<Rightarrow> pyval \<Rightarrow> bool" where
  "keeps_rules rt rule =
     (\<forall>fr. f_rule fr = rule \<longrightarrow> f_rules (snd (eval_rule_check rt fr)) = f_rules fr)"



text \<open>The loop body applied to the elements of a list in turn, until an exception escapes.\<close>

fun run_rules :: "runtime \<Rightarrow> pyval list \<Rightarrow> loop_state \<Rightarrow> pyexn option \<times> loop_state" where
  "run_rules rt [] s = (None, s)"
| "run_rules rt (rule # rest) s =
     (let r = check_rule rt rule s in
      if fst r = None then run_rules rt rest (snd r) else r)"




section \<open>Lemmas about the loop and the stores\<close>

lemmas sample_defs =
  sample_rt_def sample_eval_def sample_format_def sample_uuid4_def sample_float_of_str_def
  sample_float_of_int_def sample_str_def sample_chat_def foo_undefined_def
  amount_exceeds_1000_def initial_state_def empty_container_def rules_state_def payload_def
  rule_payload_def stored_rule_def large_amount_rule_def unknown_field_rule_def
  overwrite_rule_def forge_true_rule_def forge_raise_rule_def clear_issues_rule_def
  clear_rules_rule_def exit_rule_def audited_def fresh_def flagged_state_def loop_start_def
  created_def

lemmas loop_defs =
  check_rule_def eval_rule_check_def frame_of_def after_eval_def error_handler_def
  record_violation_def no_format_attribute_def

lemmas view_defs =
  audit_transaction_def new_transaction_def check_compliance_def loop_defs
  read_all_items_def upsert_item_def submit_def record_verdict_def
  created_body_def error_response_def update_compliance_def generate_report_def
  no_violations_def Let_def

lemma check_rules_at:
  "i < length (ls_rules s) \<Longrightarrow>
   check_rules rt i s =
     (let r = check_rule rt (ls_rules s ! i) s in
      if fst r = None then check_rules rt (Suc i) (snd r) else Some r)"
  by (subst check_rules.simps) simp

lemma check_rules_end:
  "\<not> i < length (ls_rules s) \<Longrightarrow> check_rules rt i s = Some (None, s)"
  by (subst check_rules.simps) simp

lemma handler_keeps:
  "ls_rules (snd (error_handler e rule s)) = ls_rules s"
  "ls_transaction (snd (error_handler e rule s)) = ls_transaction s"
  "ls_compliance_issues (snd (error_handler e rule s)) = ls_compliance_issues s"
  by (simp_all add: error_handler_def split: sum.splits)

lemma record_violation_keeps:
  "ls_rules (snd (record_violation rule s)) = ls_rules s"
  "ls_transaction (snd (record_violation rule s)) = ls_transaction s"
  by (simp_all add: record_violation_def handler_keeps split: sum.splits)

lemma check_rule_keeps_rules:
  assumes "keeps_rules rt rule"
  shows "ls_rules (snd (check_rule rt rule s)) = ls_rules s"
proof -
  from assms have "f_rules (snd (eval_rule_check rt (frame_of s rule))) = ls_rules s"
    by (simp add: keeps_rules_def frame_of_def)
  then show ?thesis
    by (auto simp: check_rule_def Let_def after_eval_def handler_keeps record_violation_keeps
             split: sum.splits prod.splits eval_result.splits)
qed


lemma run_rules_keeps_rules:
  "\<forall>rule\<in>set rs. keeps_rules rt rule \<Longrightarrow> ls_rules (snd (run_rules rt rs s)) = ls_rules s"
  by (induction rs arbitrary: s) (simp_all add: Let_def check_rule_keeps_rules)









lemma item_in_upsert_by_id: "item \<in> set (upsert_by_id i item xs)"
  by (induction xs) auto









lemma update_compliance_stores:
  assumes "py_getitem data ''rule_description'' = Inr d"
      and "py_getitem data ''rule_check'' = Inr c"
      and "outage (rule_container st) = None"
  shows "update_compliance rt st data =
           (Inr (Response (PDict [(''status'', PStr ''success''),
                                  (''rule_id'', PStr (uuid4 rt (uuid_count st)))]) 201),
            st\<lparr>uuid_count := Suc (uuid_count st),
               rule_container := (rule_container st)
                 \<lparr>items := upsert_by_id (uuid4 rt (uuid_count st))
                     [(''id'', PStr (uuid4 rt (uuid_count st))), (''rule_description'', d),
                      (''rule_check'', c)]
                     (items (rule_container st))\<rparr>\<rparr>)"
  using assms by (simp add: update_compliance_def Let_def upsert_item_def)

lemma update_compliance_fails:
  assumes "(\<exists>e. py_getitem data ''rule_description'' = Inl e)
           \<or> (\<exists>e. py_getitem data ''rule_check'' = Inl e)
           \<or> (\<exists>e. outage (rule_container st) = Some e)"
  shows "rule_container (snd (update_compliance rt st data)) = rule_container st
         \<and> (\<forall>body. fst (update_compliance rt st data) \<noteq> Inr (Response body 201))"
  using assms
  by (auto simp: update_compliance_def Let_def upsert_item_def error_response_def
           split: sum.splits)

lemma non_compliant_all_true:
  "\<forall>t\<in>set ts. map_of t ''is_compliant'' = Some (PBool True) \<Longrightarrow>
   non_compliant_transactions ts = Inr []"
  by (induction ts) auto

lemma non_compliant_some_false:
  "\<exists>t\<in>set ts. map_of t ''is_compliant'' = Some (PBool False) \<Longrightarrow>
   non_compliant_transactions ts = Inr bad \<Longrightarrow> bad \<noteq> []"
  by (induction ts arbitrary: bad) (auto split: sum.splits option.splits if_splits)

text \<open>
  A payload whose amount is a string that \<^verbatim>\<open>float\<close> rejects is answered with 400; no
  rule is read or evaluated and neither container changes.
\<close>

lemma invalid_amount_string_rejected:
  assumes "float_of_str rt s = Inl m"
  shows "audit_transaction rt st
           (PDict [(''date'', d), (''description'', ds), (''amount'', PStr s)])
   = Some (Inr (Response (PDict [(''error'', PStr ''Invalid amount format'')]) 400),
      st\<lparr>uuid_count := Suc (uuid_count st),
         log := log st @ [Error_converting_amount (PyExn ValueError m)]\<rparr>)"
  using assms by (simp add: audit_transaction_def new_transaction_def Let_def)

subsection \<open>Runs of the examples\<close>

lemma eval_large_amount:
  "eval_rule_check sample_rt
     \<lparr>f_transaction = fresh (Finite x), f_rules = rules, f_compliance_issues = issues,
      f_rule = PDict (large_amount_rule rid)\<rparr>
   = (Returned (PBool (x > 1000)),
      \<lparr>f_transaction = fresh (Finite x), f_rules = rules, f_compliance_issues = issues,
       f_rule = PDict (large_amount_rule rid)\<rparr>)"
  by (simp add: sample_defs eval_rule_check_def)

lemma eval_unknown_field:
  "eval_rule_check sample_rt (fr\<lparr>f_rule := PDict unknown_field_rule\<rparr>)
   = (Raised foo_undefined, fr\<lparr>f_rule := PDict unknown_field_rule\<rparr>)"
  by (simp add: sample_defs eval_rule_check_def)

lemma eval_overwrite:
  "eval_rule_check sample_rt (fr\<lparr>f_rule := PDict overwrite_rule\<rparr>)
   = (Returned PNone,
      fr\<lparr>f_rule := PDict overwrite_rule,
         f_transaction := AList.update ''amount'' (PFloat (Finite 0)) (f_transaction fr)\<rparr>)"
  by (simp add: sample_defs eval_rule_check_def)








section \<open>The claims\<close>

subsection \<open>C1: rules that name an unknown field\<close>

text \<open>
  C1 says that a rule whose predicate names a field outside \<^verbatim>\<open>date\<close>,
  \<^verbatim>\<open>description\<close>, \<^verbatim>\<open>amount\<close> fails to compile, through \<^verbatim>\<open>compile\<close> or through
  rule upsert, and never becomes evaluable. The program has no compilation step:
  \<^verbatim>\<open>update_compliance\<close> stores \<^verbatim>\<open>rule_check\<close> as it arrives. The rule \<^verbatim>\<open>foo > 10\<close> is
  accepted with 201 and stored, and the next audit evaluates it (the \<^verbatim>\<open>NameError\<close> of
  \<^verbatim>\<open>eval\<close> is caught and logged).
\<close>

theorem unknown_field_rule_is_accepted:
  "update_compliance sample_rt initial_state (rule_payload ''Unknown field'' ''foo > 10'')
     = (Inr (Response (PDict [(''status'', PStr ''success''), (''rule_id'', PStr ''uuid-'')]) 201),
        initial_state
          \<lparr>rule_container :=
             \<lparr>items = [stored_rule ''uuid-'' ''Unknown field'' ''foo > 10''], outage = None\<rparr>,
           uuid_count := 1\<rparr>)
   \<and> map_option (\<lambda>r. log (snd r))
        (audit_transaction sample_rt
           (snd (update_compliance sample_rt initial_state
                   (rule_payload ''Unknown field'' ''foo > 10'')))
           (payload (PFloat (Finite 1500))))
     = Some [Info_checking_rule (PStr ''Unknown field''),
             Error_evaluating_rule (PStr ''Unknown field'')
               (PyExn NameError ''name 'foo' is not defined'')]"
  by (simp add: sample_defs view_defs check_rules_at check_rules_end)

text \<open>
  C1 as amended: \<^verbatim>\<open>update_compliance\<close> does not compile or check rule text. For every
  payload that has the keys \<^verbatim>\<open>rule_description\<close> and \<^verbatim>\<open>rule_check\<close>, whatever their
  values, and a rule container that accepts the write, it answers 201 and upserts the
  rule, with the description and the text as given, under the identifier that \<^verbatim>\<open>uuid4\<close>
  yields; the rule is then among the items of the rule container.
\<close>

theorem any_rule_text_is_stored:
  assumes "py_getitem data ''rule_description'' = Inr d"
      and "py_getitem data ''rule_check'' = Inr c"
      and "outage (rule_container st) = None"
  shows "update_compliance rt st data =
           (Inr (Response (PDict [(''status'', PStr ''success''),
                                  (''rule_id'', PStr (uuid4 rt (uuid_count st)))]) 201),
            st\<lparr>uuid_count := Suc (uuid_count st),
               rule_container := (rule_container st)
                 \<lparr>items := upsert_by_id (uuid4 rt (uuid_count st))
                     [(''id'', PStr (uuid4 rt (uuid_count st))), (''rule_description'', d),
                      (''rule_check'', c)]
                     (items (rule_container st))\<rparr>\<rparr>)
       \<and> [(''id'', PStr (uuid4 rt (uuid_count st))), (''rule_description'', d), (''rule_check'', c)]
            \<in> set (items (rule_container (snd (update_compliance rt st data))))"
  using update_compliance_stores [OF assms, of rt] by (simp add: item_in_upsert_by_id)

theorem any_rule_text_is_stored_witness:
  "items (rule_container (snd (update_compliance sample_rt
      (rules_state [large_amount_rule ''r-1'']) (rule_payload ''Unknown field'' ''bar < 3''))))
   = [large_amount_rule ''r-1'', stored_rule ''uuid-'' ''Unknown field'' ''bar < 3'']"
proof -
  have d: "py_getitem (rule_payload ''Unknown field'' ''bar < 3'') ''rule_description''
             = Inr (PStr ''Unknown field'')"
    by (simp add: rule_payload_def)
  have c: "py_getitem (rule_payload ''Unknown field'' ''bar < 3'') ''rule_check''
             = Inr (PStr ''bar < 3'')"
    by (simp add: rule_payload_def)
  have up: "outage (rule_container (rules_state [large_amount_rule ''r-1''])) = None"
    by (simp add: rules_state_def)
  from any_rule_text_is_stored [OF d c up, of sample_rt] show ?thesis
    by (simp add: sample_defs)
qed

subsection \<open>C2: the verdict and the issues\<close>



subsection \<open>C3: amounts that are not numbers\<close>

text \<open>
  C3: a payload whose amount does not parse to a number makes the audit fail with a
  validation error before any rule is evaluated and before any store write. The view
  catches only \<^verbatim>\<open>ValueError\<close>, which \<^verbatim>\<open>float\<close> raises on a string; on JSON
  \<^verbatim>\<open>null\<close> (and on a list or an object) \<^verbatim>\<open>float\<close> raises \<^verbatim>\<open>TypeError\<close>, which escapes
  the view instead of producing the 400 answer \<^verbatim>\<open>Invalid amount format\<close>. No rule is read
  and nothing is stored on that path either.
\<close>

theorem null_amount_escapes:
  "audit_transaction rt st (PDict [(''date'', d), (''description'', ds), (''amount'', PNone)])
   = Some (Inl (PyExn TypeError []), st\<lparr>uuid_count := Suc (uuid_count st)\<rparr>)"
  by (simp add: audit_transaction_def new_transaction_def Let_def)

subsection \<open>C4: when a rule is recorded as violated\<close>




subsection \<open>C5: an evaluation error and the rest of the loop\<close>




subsection \<open>C6: upsert of an invalid rule\<close>

text \<open>
  C6 says that upserting a syntactically invalid rule fails with a syntax error and leaves
  the rule set unchanged. \<^verbatim>\<open>update_compliance\<close> never looks at the text: with the rule
  \<^verbatim>\<open>amount >\<close> it answers 201 and the rule set read back has one rule more.
\<close>

theorem invalid_rule_is_upserted:
  "read_all_items (rule_container (rules_state [large_amount_rule ''r-1'']))
     = Inr [large_amount_rule ''r-1'']
   \<and> fst (update_compliance sample_rt (rules_state [large_amount_rule ''r-1''])
            (rule_payload ''Broken'' ''amount >''))
     = Inr (Response (PDict [(''status'', PStr ''success''), (''rule_id'', PStr ''uuid-'')]) 201)
   \<and> read_all_items (rule_container (snd (update_compliance sample_rt
          (rules_state [large_amount_rule ''r-1'']) (rule_payload ''Broken'' ''amount >''))))
     = Inr [large_amount_rule ''r-1'', stored_rule ''uuid-'' ''Broken'' ''amount >'']"
  by (simp add: sample_defs view_defs)

text \<open>
  C6 as amended: \<^verbatim>\<open>update_compliance\<close> never reads the rule text, so no text is rejected.
  Whenever the payload has both keys and the rule container accepts the write, it answers
  201 and the rule, with the text as given, is upserted into the rule container. In every
  other case (a key is missing from the payload, or the write to the container raises) it
  does not answer 201 and the rule container is exactly as it was.
\<close>

theorem update_is_all_or_nothing:
  "(py_getitem data ''rule_description'' = Inr d \<and> py_getitem data ''rule_check'' = Inr c
      \<and> outage (rule_container st) = None \<longrightarrow>
      fst (update_compliance rt st data) =
        Inr (Response (PDict [(''status'', PStr ''success''),
                              (''rule_id'', PStr (uuid4 rt (uuid_count st)))]) 201)
      \<and> items (rule_container (snd (update_compliance rt st data))) =
          upsert_by_id (uuid4 rt (uuid_count st))
            [(''id'', PStr (uuid4 rt (uuid_count st))), (''rule_description'', d),
             (''rule_check'', c)]
            (items (rule_container st))
      \<and> [(''id'', PStr (uuid4 rt (uuid_count st))), (''rule_description'', d), (''rule_check'', c)]
           \<in> set (items (rule_container (snd (update_compliance rt st data)))))
   \<and> ((\<exists>e. py_getitem data ''rule_description'' = Inl e)
        \<or> (\<exists>e. py_getitem data ''rule_check'' = Inl e)
        \<or> (\<exists>e. outage (rule_container st) = Some e) \<longrightarrow>
      rule_container (snd (update_compliance rt st data)) = rule_container st
      \<and> (\<forall>body. fst (update_compliance rt st data) \<noteq> Inr (Response body 201)))"
proof (intro conjI impI)
  assume a: "py_getitem data ''rule_description'' = Inr d \<and> py_getitem data ''rule_check'' = Inr c
      \<and> outage (rule_container st) = None"
  then have u: "update_compliance rt st data =
           (Inr (Response (PDict [(''status'', PStr ''success''),
                                  (''rule_id'', PStr (uuid4 rt (uuid_count st)))]) 201),
            st\<lparr>uuid_count := Suc (uuid_count st),
               rule_container := (rule_container st)
                 \<lparr>items := upsert_by_id (uuid4 rt (uuid_count st))
                     [(''id'', PStr (uuid4 rt (uuid_count st))), (''rule_description'', d),
                      (''rule_check'', c)]
                     (items (rule_container st))\<rparr>\<rparr>)"
    by (intro update_compliance_stores) simp_all
  show "fst (update_compliance rt st data) =
        Inr (Response (PDict [(''status'', PStr ''success''),
                              (''rule_id'', PStr (uuid4 rt (uuid_count st)))]) 201)"
    by (simp add: u)
  show "items (rule_container (snd (update_compliance rt st data))) =
          upsert_by_id (uuid4 rt (uuid_count st))
            [(''id'', PStr (uuid4 rt (uuid_count st))), (''rule_description'', d),
             (''rule_check'', c)]
            (items (rule_container st))"
    by (simp add: u)
  show "[(''id'', PStr (uuid4 rt (uuid_count st))), (''rule_description'', d), (''rule_check'', c)]
           \<in> set (items (rule_container (snd (update_compliance rt st data))))"
    by (simp add: u item_in_upsert_by_id)
next
  assume "(\<exists>e. py_getitem data ''rule_description'' = Inl e)
        \<or> (\<exists>e. py_getitem data ''rule_check'' = Inl e)
        \<or> (\<exists>e. outage (rule_container st) = Some e)"
  from update_compliance_fails [OF this, of rt]
  show "rule_container (snd (update_compliance rt st data)) = rule_container st"
    and "\<forall>body. fst (update_compliance rt st data) \<noteq> Inr (Response body 201)"
    by simp_all
qed

theorem update_is_all_or_nothing_witness:
  "items (rule_container (snd (update_compliance sample_rt
      (rules_state [large_amount_rule ''r-1'']) (rule_payload ''Broken'' ''amount >''))))
   = [large_amount_rule ''r-1'', stored_rule ''uuid-'' ''Broken'' ''amount >'']
   \<and> rule_container (snd (update_compliance sample_rt
      (initial_state\<lparr>rule_container :=
         \<lparr>items = [large_amount_rule ''r-1''],
          outage = Some (PyExn (OtherException ''CosmosHttpResponseError'') ''Service Unavailable'')\<rparr>\<rparr>)
      (rule_payload ''Broken'' ''amount >'')))
   = \<lparr>items = [large_amount_rule ''r-1''],
      outage = Some (PyExn (OtherException ''CosmosHttpResponseError'') ''Service Unavailable'')\<rparr>
   \<and> fst (update_compliance sample_rt
      (initial_state\<lparr>rule_container :=
         \<lparr>items = [large_amount_rule ''r-1''],
          outage = Some (PyExn (OtherException ''CosmosHttpResponseError'') ''Service Unavailable'')\<rparr>\<rparr>)
      (rule_payload ''Broken'' ''amount >''))
   = Inr (Response (PDict [(''error'', PStr ''Service Unavailable'')]) 500)"
proof -
  let ?up = "rules_state [large_amount_rule ''r-1'']"
  let ?down = "initial_state\<lparr>rule_container :=
         \<lparr>items = [large_amount_rule ''r-1''],
          outage = Some (PyExn (OtherException ''CosmosHttpResponseError'') ''Service Unavailable'')\<rparr>\<rparr>"
  let ?data = "rule_payload ''Broken'' ''amount >''"
  have k: "py_getitem ?data ''rule_description'' = Inr (PStr ''Broken'')
           \<and> py_getitem ?data ''rule_check'' = Inr (PStr ''amount >'')
           \<and> outage (rule_container ?up) = None"
    by (simp add: sample_defs)
  have o: "(\<exists>e. py_getitem ?data ''rule_description'' = Inl e)
        \<or> (\<exists>e. py_getitem ?data ''rule_check'' = Inl e)
        \<or> (\<exists>e. outage (rule_container ?down) = Some e)"
    by simp
  have r: "fst (update_compliance sample_rt ?down ?data)
             = Inr (Response (PDict [(''error'', PStr ''Service Unavailable'')]) 500)"
    by (simp add: sample_defs view_defs)
  from update_is_all_or_nothing [of ?data "PStr ''Broken''" "PStr ''amount >''" ?up sample_rt] k
  have "items (rule_container (snd (update_compliance sample_rt ?up ?data))) =
          upsert_by_id (uuid4 sample_rt (uuid_count ?up))
            [(''id'', PStr (uuid4 sample_rt (uuid_count ?up))),
             (''rule_description'', PStr ''Broken''), (''rule_check'', PStr ''amount >'')]
            (items (rule_container ?up))"
    by blast
  moreover
  from update_is_all_or_nothing [of ?data _ _ ?down sample_rt] o
  have "rule_container (snd (update_compliance sample_rt ?down ?data)) = rule_container ?down"
    by blast
  ultimately show ?thesis using r by (simp add: sample_defs)
qed

subsection \<open>C7: the order of the issues\<close>




subsection \<open>C8: the report when nothing is violated\<close>

text \<open>
  C8 says that \<^verbatim>\<open>generate_report\<close> over transactions that are all compliant returns a
  sentinel that can be told apart from a real report. The sentinel is the sentence
  \<^verbatim>\<open>No non-compliant transactions found.\<close> in the field \<^verbatim>\<open>report\<close>, the field that
  also carries the text of a real report. With a store that holds a non-compliant
  transaction and a text-generation service that answers with that sentence, the view
  returns the very response it returns for an empty store.
\<close>

theorem report_can_equal_sentinel:
  "non_compliant_transactions (items (transaction_container flagged_state))
     = Inr [audited (Finite 500) [PStr ''Amount must exceed 1000'']]
   \<and> fst (generate_report sample_rt flagged_state) = Inr no_violations
   \<and> fst (generate_report sample_rt initial_state) = Inr no_violations"
  by (simp add: sample_defs view_defs detail_line_def)

text \<open>
  C8 as amended: when every transaction read is compliant (also when there is none),
  \<^verbatim>\<open>generate_report\<close> returns the fixed body with the sentence
  \<^verbatim>\<open>No non-compliant transactions found.\<close> and does not call the text-generation
  service. A real report travels in the same field, so the two differ by their text only:
  when some transaction is non-compliant and the service never answers with that
  sentence, the response is not the sentinel.
\<close>

theorem sentinel_when_all_compliant:
  assumes "read_all_items (transaction_container st) = Inr ts"
  shows "((\<forall>t\<in>set ts. map_of t ''is_compliant'' = Some (PBool True)) \<longrightarrow>
            generate_report rt st = (Inr no_violations, st))
       \<and> ((\<exists>t\<in>set ts. map_of t ''is_compliant'' = Some (PBool False))
            \<and> (\<forall>p. perform_query_chat rt p
                      \<noteq> Inr (PStr ''No non-compliant transactions found.'')) \<longrightarrow>
            fst (generate_report rt st) \<noteq> Inr no_violations)"
proof (intro conjI impI)
  assume "\<forall>t\<in>set ts. map_of t ''is_compliant'' = Some (PBool True)"
  from non_compliant_all_true [OF this] assms
  show "generate_report rt st = (Inr no_violations, st)"
    by (simp add: generate_report_def)
next
  assume a: "(\<exists>t\<in>set ts. map_of t ''is_compliant'' = Some (PBool False))
            \<and> (\<forall>p. perform_query_chat rt p
                      \<noteq> Inr (PStr ''No non-compliant transactions found.''))"
  show "fst (generate_report rt st) \<noteq> Inr no_violations"
  proof (cases "non_compliant_transactions ts")
    case (Inl e)
    with assms show ?thesis by (simp add: generate_report_def)
  next
    case (Inr bad)
    with a non_compliant_some_false have "bad \<noteq> []" by blast
    with Inr assms a show ?thesis
      by (auto simp: generate_report_def no_violations_def split: sum.splits)
  qed
qed

theorem sentinel_when_all_compliant_witness:
  "generate_report sample_rt
     (initial_state\<lparr>transaction_container :=
        \<lparr>items = [audited (Finite 1500) []], outage = None\<rparr>\<rparr>)
   = (Inr no_violations,
      initial_state\<lparr>transaction_container :=
        \<lparr>items = [audited (Finite 1500) []], outage = None\<rparr>\<rparr>)
   \<and> fst (generate_report (sample_rt\<lparr>perform_query_chat := \<lambda>p. Inr (PStr ''Audit report'')\<rparr>)
            flagged_state)
     = Inr (Response (PDict [(''report'', PStr ''Audit report'')]) 200)
   \<and> Response (PDict [(''report'', PStr ''Audit report'')]) 200 \<noteq> no_violations"
proof -
  let ?ok = "initial_state\<lparr>transaction_container :=
               \<lparr>items = [audited (Finite 1500) []], outage = None\<rparr>\<rparr>"
  let ?rt = "sample_rt\<lparr>perform_query_chat := \<lambda>p. Inr (PStr ''Audit report'')\<rparr>"
  have r1: "read_all_items (transaction_container ?ok) = Inr [audited (Finite 1500) []]"
    by (simp add: sample_defs read_all_items_def)
  have c1: "\<forall>t\<in>set [audited (Finite 1500) []]. map_of t ''is_compliant'' = Some (PBool True)"
    by (simp add: audited_def)
  have r2: "read_all_items (transaction_container flagged_state)
              = Inr [audited (Finite 500) [PStr ''Amount must exceed 1000'']]"
    by (simp add: sample_defs read_all_items_def)
  have c2: "\<exists>t\<in>set [audited (Finite 500) [PStr ''Amount must exceed 1000'']].
              map_of t ''is_compliant'' = Some (PBool False)"
    by (simp add: audited_def)
  have c3: "\<forall>p. perform_query_chat ?rt p \<noteq> Inr (PStr ''No non-compliant transactions found.'')"
    by simp
  have g: "fst (generate_report ?rt flagged_state)
             = Inr (Response (PDict [(''report'', PStr ''Audit report'')]) 200)"
    by (simp add: sample_defs view_defs detail_line_def)
  from sentinel_when_all_compliant [OF r1, of sample_rt] c1
  have "generate_report sample_rt ?ok = (Inr no_violations, ?ok)"
    by blast
  moreover from sentinel_when_all_compliant [OF r2, of ?rt] c2 c3
  have "fst (generate_report ?rt flagged_state) \<noteq> Inr no_violations"
    by blast
  ultimately show ?thesis using g by simp
qed

subsection \<open>C9: evaluation and the transaction\<close>




subsection \<open>C10: a rule that fails to evaluate\<close>




end
